theory Spec2Isabelle
  imports Main
begin

section \<open>The language-client extension: data model\<close>

text \<open>
  The extension module \<^verbatim>\<open>client/src/extension.ts\<close> has one module-level variable
  (\<^verbatim>\<open>let client: LanguageClient\<close>) and two exported functions, \<^verbatim>\<open>activate\<close> and
  \<^verbatim>\<open>deactivate\<close>. Everything else it touches belongs to the host (the editor API and
  the language-client library). The model keeps the values the module builds as records,
  the module variable and the objects it constructs as an explicit store, and the results
  of the library calls \<^verbatim>\<open>client.start()\<close> and \<^verbatim>\<open>client.stop()\<close> as inputs
  of the functions that make these calls.
\<close>

type_synonym env = "string \<rightharpoonup> string"

text \<open>\<^verbatim>\<open>Executable\<close>: the source sets \<^verbatim>\<open>command\<close> and \<^verbatim>\<open>options.env\<close>; \<^verbatim>\<open>args\<close> is absent.\<close>

record executable =
  command :: string
  args :: "string list option"
  options_env :: env

record server_options =
  run :: executable
  debug :: executable

text \<open>A document filter \<^verbatim>\<open>{ scheme, language }\<close>; both properties are optional.\<close>

record document_filter =
  scheme :: "string option"
  language :: "string option"

record file_system_watcher =
  globPattern :: string

text \<open>
  \<^verbatim>\<open>LanguageClientOptions\<close>: \<^verbatim>\<open>synchronize.fileEvents\<close> is a watcher or an array of
  watchers in the library's type; it is kept as the list of watchers.
\<close>

record client_options =
  documentSelector :: "document_filter list"
  synchronize_fileEvents :: "file_system_watcher list"

text \<open>The arguments of \<^verbatim>\<open>new LanguageClient(id, name, serverOptions, clientOptions)\<close>.\<close>

record language_client =
  lc_id :: string
  lc_name :: string
  lc_serverOptions :: server_options
  lc_clientOptions :: client_options

datatype error = LaunchError | SessionError | Error string

text \<open>How a \<^verbatim>\<open>Promise<void>\<close> settles.\<close>

datatype settled = Fulfilled | Rejected error

text \<open>The calls made on library objects, in program order, each with the way its promise settles.\<close>

datatype client_call = Start nat settled | Stop nat settled

text \<open>
  The module variable \<^verbatim>\<open>client\<close> holds a reference (\<open>None\<close> is \<^verbatim>\<open>undefined\<close>, its
  value before the first assignment); \<open>heap\<close> holds the clients constructed so far, a
  reference being an index into it; \<open>calls\<close> is the trace of library calls.
\<close>

record module_state =
  client :: "nat option"
  heap :: "language_client list"
  calls :: "client_call list"

definition init_state :: module_state where
  "init_state = \<lparr>client = None, heap = [], calls = []\<rparr>"

text \<open>
  Modelled from the spec: the launch configuration surface (executable path, argument
  list, environment-variable overlay) a host may supply. No source file declares it.
\<close>

record launch_config =
  cfg_command :: string
  cfg_args :: "string list"
  cfg_env :: env

text \<open>
  What the module can see of its host: \<^verbatim>\<open>process.env\<close> and the host's configuration.
\<close>

record host =
  process_env :: env
  configuration :: launch_config

section \<open>The operations\<close>

definition createFileSystemWatcher :: "string \<Rightarrow> file_system_watcher" where
  "createFileSystemWatcher g = \<lparr>globPattern = g\<rparr>"

text \<open>The local constants of \<^verbatim>\<open>activate\<close>, in the order of the source.\<close>

definition command_path :: string where
  "command_path = ''/Users/laurence/OpenFOAM-LSP/target/release/ofoam_ls''"

definition run_executable :: "host \<Rightarrow> executable" where
  "run_executable h =
     \<lparr>command = command_path,
      args = None,
      options_env = (process_env h)(''RUST_LOG'' \<mapsto> ''debug'')\<rparr>"

definition serverOptions :: "host \<Rightarrow> server_options" where
  "serverOptions h = \<lparr>run = run_executable h, debug = run_executable h\<rparr>"

definition clientOptions :: client_options where
  "clientOptions =
     \<lparr>documentSelector = [\<lparr>scheme = Some ''file'', language = Some ''*''\<rparr>],
      synchronize_fileEvents = [createFileSystemWatcher ''**/.clientrc'']\<rparr>"

text \<open>
  \<^verbatim>\<open>activate\<close> is an \<^verbatim>\<open>async\<close> function: its result is a promise. It builds the
  options, evaluates \<^verbatim>\<open>new LanguageClient(...)\<close>, assigns the new client to
  \<^verbatim>\<open>client\<close>, calls \<^verbatim>\<open>client.start()\<close> as a statement (the promise of that call is
  neither awaited nor returned) and falls off its end. Nothing is caught: when the
  constructor throws, the body ends there, before the assignment and before the call of
  \<^verbatim>\<open>start()\<close>, and the promise of \<^verbatim>\<open>activate\<close> rejects with what was thrown.
  \<open>context\<close> is the unused parameter; \<open>thrown\<close> is what the constructor throws
  (\<open>None\<close> when it returns the client); \<open>start_result\<close> is how the promise of
  \<^verbatim>\<open>client.start()\<close> settles (\<^verbatim>\<open>start\<close> is itself \<^verbatim>\<open>async\<close> in the library
  version of \<^verbatim>\<open>package.json\<close>, so its failures arrive through that promise).
\<close>

definition activate ::
  "'ctx \<Rightarrow> host \<Rightarrow> error option \<Rightarrow> settled \<Rightarrow> module_state \<Rightarrow> settled \<times> module_state" where
  "activate context h thrown start_result s =
     (case thrown of
        Some e \<Rightarrow> (Rejected e, s)
      | None \<Rightarrow>
          (let r = length (heap s);
               c = \<lparr>lc_id = ''ofoam_ls'', lc_name = ''ofoam_ls'',
                    lc_serverOptions = serverOptions h, lc_clientOptions = clientOptions\<rparr>;
               s1 = s\<lparr>heap := heap s @ [c], client := Some r\<rparr>;
               s2 = s1\<lparr>calls := calls s1 @ [Start r start_result]\<rparr>
           in (Fulfilled, s2)))"

text \<open>
  \<^verbatim>\<open>deactivate\<close> returns \<^verbatim>\<open>undefined\<close> (\<open>None\<close>) when \<^verbatim>\<open>client\<close> is unset, and the
  promise of \<^verbatim>\<open>client.stop()\<close> otherwise; \<open>stop_result\<close> is how that promise settles.
\<close>

definition deactivate :: "settled \<Rightarrow> module_state \<Rightarrow> settled option \<times> module_state" where
  "deactivate stop_result s =
     (case client s of
        None \<Rightarrow> (None, s)
      | Some c \<Rightarrow> (Some stop_result, s\<lparr>calls := calls s @ [Stop c stop_result]\<rparr>))"

text \<open>Sequences of calls by the host, each with what the host and the library contribute.\<close>

datatype host_call = Activate host "error option" settled | Deactivate settled

fun step :: "module_state \<Rightarrow> host_call \<Rightarrow> module_state" where
  "step s (Activate h t r) = snd (activate () h t r s)"
| "step s (Deactivate r) = snd (deactivate r s)"

definition exec :: "host_call list \<Rightarrow> module_state \<Rightarrow> module_state" where
  "exec cs s = foldl step s cs"

fun is_deactivate :: "host_call \<Rightarrow> bool" where
  "is_deactivate (Deactivate r) = True"
| "is_deactivate (Activate h t r) = False"


text \<open>The client the module variable refers to.\<close>

definition current_client :: "module_state \<Rightarrow> language_client option" where
  "current_client s =
     (case client s of
        None \<Rightarrow> None
      | Some r \<Rightarrow> if r < length (heap s) then Some (heap s ! r) else None)"

text \<open>The launch command of the client the module variable refers to.\<close>

definition launched :: "module_state \<Rightarrow> executable option" where
  "launched s = map_option (\<lambda>c. run (lc_serverOptions c)) (current_client s)"





section \<open>The host's side of the options\<close>

text \<open>A document as the selector sees it: its URI scheme and its language id.\<close>

record document =
  doc_scheme :: string
  doc_language :: string

text \<open>
  Modelled from the spec: a selector is a set of (scheme, language-id) predicates and a
  document matches when any predicate matches. The matching itself is the host's; a
  property of a filter that is absent does not constrain, and the value \<^verbatim>\<open>"*"\<close> is the
  host's wildcard for a property.
\<close>

definition property_matches :: "string option \<Rightarrow> string \<Rightarrow> bool" where
  "property_matches p v = (case p of None \<Rightarrow> True | Some x \<Rightarrow> x = ''*'' \<or> x = v)"

definition filter_matches :: "document_filter \<Rightarrow> document \<Rightarrow> bool" where
  "filter_matches f d =
     (property_matches (scheme f) (doc_scheme d) \<and>
      property_matches (language f) (doc_language d))"

definition selector_matches :: "document_filter list \<Rightarrow> document \<Rightarrow> bool" where
  "selector_matches sel d = list_ex (\<lambda>f. filter_matches f d) sel"

text \<open>
  Modelled from the spec: a filesystem event is forwarded as a file-change notification
  once for each configured watcher whose glob pattern its path matches. The glob matching
  is the host's and is a parameter, \<open>glob\<close>.
\<close>

definition watch_notifications ::
  "(string \<Rightarrow> string \<Rightarrow> bool) \<Rightarrow> client_options \<Rightarrow> string \<Rightarrow> string list" where
  "watch_notifications glob opts path =
     map (\<lambda>w. path) (filter (\<lambda>w. glob (globPattern w) path) (synchronize_fileEvents opts))"

text \<open>
  A glob matcher for patterns of the form \<^verbatim>\<open>**/name\<close>: the last segment of the path
  is \<open>name\<close>. It instantiates the parameter \<open>glob\<close> on concrete paths.
\<close>

definition last_segment :: "string \<Rightarrow> string" where
  "last_segment p = rev (takeWhile (\<lambda>c. c \<noteq> CHR ''/'') (rev p))"

definition basename_glob :: "string \<Rightarrow> string \<Rightarrow> bool" where
  "basename_glob pat p = (take 3 pat = ''**/'' \<and> drop 3 pat = last_segment p)"

section \<open>A concrete host, and the invariant of the module variable\<close>

definition plain_host :: host where
  "plain_host =
     \<lparr>process_env = [''PATH'' \<mapsto> ''/usr/bin'', ''RUST_LOG'' \<mapsto> ''info''],
      configuration = \<lparr>cfg_command = ''mock-server'', cfg_args = [],
                       cfg_env = [''LOG'' \<mapsto> ''debug'']\<rparr>\<rparr>"


section \<open>Stopping a module that was never started\<close>

lemma deactivate_unset: "client s = None \<Longrightarrow> deactivate r s = (None, s)"
  by (simp add: deactivate_def)

lemma exec_only_deactivate:
  "list_all is_deactivate cs \<Longrightarrow> client s = None \<Longrightarrow> exec cs s = s"
proof (induction cs arbitrary: s)
  case Nil
  then show ?case by (simp add: exec_def)
next
  case (Cons c cs)
  from Cons.prems obtain r where c: "c = Deactivate r"
    by (cases c) auto
  have "step s c = s"
    using Cons.prems(2) by (simp add: c deactivate_unset)
  moreover have "exec (c # cs) s = exec cs (step s c)"
    by (simp add: exec_def)
  ultimately show ?case
    using Cons.IH Cons.prems by simp
qed

text \<open>
  C1. In every state reached without a call of \<^verbatim>\<open>activate\<close> (any number of earlier
  \<^verbatim>\<open>deactivate\<close> calls), \<^verbatim>\<open>deactivate\<close> returns \<^verbatim>\<open>undefined\<close> at once, leaves the
  state as it was initially, and the trace of library calls stays empty: \<^verbatim>\<open>client.stop()\<close>
  is not called.
\<close>

theorem deactivate_never_started:
  assumes "list_all is_deactivate cs"
  shows "deactivate r (exec cs init_state) = (None, init_state) \<and>
         calls (snd (deactivate r (exec cs init_state))) = []"
proof -
  have "exec cs init_state = init_state"
    using assms by (rule exec_only_deactivate) (simp add: init_state_def)
  then show ?thesis
    by (simp add: deactivate_unset init_state_def)
qed

theorem deactivate_never_started_witness:
  "list_all is_deactivate [Deactivate Fulfilled, Deactivate (Rejected SessionError)] \<and>
   deactivate (Rejected LaunchError)
     (exec [Deactivate Fulfilled, Deactivate (Rejected SessionError)] init_state)
     = (None, init_state)"
  using deactivate_never_started
    [of "[Deactivate Fulfilled, Deactivate (Rejected SessionError)]" "Rejected LaunchError"]
  by simp

section \<open>The result of stopping\<close>

lemma client_after_activate: "client (snd (activate ctx h None r s)) = Some (length (heap s))"
  by (simp add: activate_def Let_def)

lemma heap_after_activate:
  "heap (snd (activate ctx h None r s)) =
     heap s @ [\<lparr>lc_id = ''ofoam_ls'', lc_name = ''ofoam_ls'',
                lc_serverOptions = serverOptions h, lc_clientOptions = clientOptions\<rparr>]"
  by (simp add: activate_def Let_def)


lemma client_after_deactivate: "client (snd (deactivate r s)) = client s"
  by (simp add: deactivate_def split: option.splits)

lemma heap_after_deactivate: "heap (snd (deactivate r s)) = heap s"
  by (simp add: deactivate_def split: option.splits)

lemma calls_after_deactivate:
  "calls (snd (deactivate r s)) =
     calls s @ (case client s of None \<Rightarrow> [] | Some c \<Rightarrow> [Stop c r])"
  by (simp add: deactivate_def split: option.splits)

lemma result_of_deactivate: "fst (deactivate r s) = map_option (\<lambda>c. r) (client s)"
  by (simp add: deactivate_def split: option.splits)

text \<open>
  C2, as stated, fails: with a client in place, a rejection of \<^verbatim>\<open>client.stop()\<close> is
  the result of \<^verbatim>\<open>deactivate\<close>.
\<close>

theorem deactivate_rejects_counterexample:
  "fst (deactivate (Rejected (Error ''Stopping the server timed out''))
          (snd (activate () plain_host None Fulfilled init_state)))
     = Some (Rejected (Error ''Stopping the server timed out''))"
  by (simp add: result_of_deactivate client_after_activate)

text \<open>
  C2, amended. \<^verbatim>\<open>deactivate\<close> hands back the promise of \<^verbatim>\<open>client.stop()\<close> as it is:
  its result is a rejection with an error exactly when a client exists and
  \<^verbatim>\<open>client.stop()\<close> rejects with that error; with no client the result is
  \<^verbatim>\<open>undefined\<close>.
\<close>

theorem deactivate_passes_stop_result:
  "(fst (deactivate r s) = Some (Rejected e)) = (client s \<noteq> None \<and> r = Rejected e) \<and>
   (fst (deactivate r s) = None) = (client s = None)"
  by (cases "client s") (simp_all add: result_of_deactivate)

section \<open>What activate builds\<close>

lemma current_after_activate:
  "current_client (snd (activate ctx h None r s)) =
     Some \<lparr>lc_id = ''ofoam_ls'', lc_name = ''ofoam_ls'',
           lc_serverOptions = serverOptions h, lc_clientOptions = clientOptions\<rparr>"
  by (simp add: current_client_def client_after_activate heap_after_activate)

lemma launched_after_activate:
  "launched (snd (activate ctx h None r s)) = Some (run_executable h)"
  by (simp add: launched_def current_after_activate serverOptions_def)

lemma env_lookup:
  "options_env (run_executable h) k =
     (if k = ''RUST_LOG'' then Some ''debug'' else process_env h k)"
  by (simp add: run_executable_def)

text \<open>
  C3. The environment of the launch command built by \<^verbatim>\<open>activate\<close> is the inherited
  process environment merged with the overlay \<^verbatim>\<open>{RUST_LOG: "debug"}\<close>, the overlay
  winning: \<^verbatim>\<open>RUST_LOG\<close> is bound to \<^verbatim>\<open>"debug"\<close> whatever was inherited, and every
  other variable is as inherited.
\<close>

theorem activate_env_overlay:
  "launched (snd (activate ctx h None r s)) = Some (run_executable h) \<and>
   options_env (run_executable h) = process_env h ++ [''RUST_LOG'' \<mapsto> ''debug''] \<and>
   options_env (run_executable h) ''RUST_LOG'' = Some ''debug'' \<and>
   (\<forall>k. k \<noteq> ''RUST_LOG'' \<longrightarrow> options_env (run_executable h) k = process_env h k)"
proof -
  have "options_env (run_executable h) = process_env h ++ [''RUST_LOG'' \<mapsto> ''debug'']"
    by (simp add: run_executable_def)
  then show ?thesis
    by (simp add: launched_after_activate env_lookup)
qed

theorem activate_env_overlay_witness:
  "''PATH'' \<noteq> ''RUST_LOG'' \<and>
   process_env plain_host ''RUST_LOG'' = Some ''info'' \<and>
   options_env (run_executable plain_host) ''RUST_LOG'' = Some ''debug'' \<and>
   options_env (run_executable plain_host) ''PATH'' = Some ''/usr/bin''"
proof -
  note t = activate_env_overlay [of "()" plain_host Fulfilled init_state]
  have ne: "''PATH'' \<noteq> ''RUST_LOG''" by simp
  have "options_env (run_executable plain_host) ''PATH'' = process_env plain_host ''PATH''"
    using t [THEN conjunct2, THEN conjunct2, THEN conjunct2, rule_format, OF ne] .
  moreover have "options_env (run_executable plain_host) ''RUST_LOG'' = Some ''debug''"
    using t [THEN conjunct2, THEN conjunct2, THEN conjunct1] .
  ultimately show ?thesis
    by (simp add: plain_host_def)
qed

text \<open>
  C4, as stated, fails: for a host whose configuration names the command
  \<^verbatim>\<open>mock-server\<close>, the command launched is another one.
\<close>

theorem launch_not_configured_counterexample:
  "map_option command (launched (snd (activate () plain_host None Fulfilled init_state)))
     \<noteq> Some (cfg_command (configuration plain_host))"
  by (simp add: launched_after_activate run_executable_def command_path_def plain_host_def)

text \<open>
  C4, amended. The launch command is fixed by \<^verbatim>\<open>activate\<close> itself: the executable
  path is the literal of the source, no argument list is given, and the environment is the
  process environment with \<^verbatim>\<open>RUST_LOG\<close> set to \<^verbatim>\<open>"debug"\<close>; the host's configuration
  has no influence on it.
\<close>

theorem launch_is_fixed:
  "launched (snd (activate ctx h None r s)) =
     Some \<lparr>command = ''/Users/laurence/OpenFOAM-LSP/target/release/ofoam_ls'',
           args = None,
           options_env = (process_env h)(''RUST_LOG'' \<mapsto> ''debug'')\<rparr> \<and>
   launched (snd (activate ctx (h\<lparr>configuration := cfg\<rparr>) None r s)) =
     launched (snd (activate ctx h None r s))"
  by (simp add: launched_after_activate run_executable_def command_path_def)

text \<open>
  C5, as stated, fails: a document whose scheme is not \<^verbatim>\<open>file\<close> is not matched.
\<close>

theorem selector_not_wildcard_counterexample:
  "\<not> selector_matches (documentSelector clientOptions)
        \<lparr>doc_scheme = ''untitled'', doc_language = ''plaintext''\<rparr>"
  by (simp add: selector_matches_def filter_matches_def property_matches_def clientOptions_def)

text \<open>
  C5, amended. The selector installed by \<^verbatim>\<open>activate\<close> matches a document exactly when
  its scheme is \<^verbatim>\<open>file\<close>, whatever its language id: the wildcard is on the language
  only.
\<close>

theorem selector_matches_file_scheme:
  "map_option (documentSelector \<circ> lc_clientOptions) (current_client (snd (activate ctx h None r s)))
     = Some (documentSelector clientOptions) \<and>
   selector_matches (documentSelector clientOptions) d = (doc_scheme d = ''file'')"
  by (auto simp add: current_after_activate selector_matches_def filter_matches_def
      property_matches_def clientOptions_def)

theorem selector_matches_file_scheme_witness:
  "selector_matches (documentSelector clientOptions)
     \<lparr>doc_scheme = ''file'', doc_language = ''foam''\<rparr>"
  using selector_matches_file_scheme
    [of "()" plain_host Fulfilled init_state "\<lparr>doc_scheme = ''file'', doc_language = ''foam''\<rparr>"]
  by simp

section \<open>The result of starting\<close>

text \<open>
  C6, as stated, fails: when \<^verbatim>\<open>client.start()\<close> rejects with a launch error, the
  promise of \<^verbatim>\<open>activate\<close> is fulfilled all the same.
\<close>

theorem activate_hides_start_failure_counterexample:
  "fst (activate () plain_host None (Rejected LaunchError) init_state) = Fulfilled"
  by (simp add: activate_def Let_def)

text \<open>
  C6, amended. The promise of \<^verbatim>\<open>activate\<close> does not depend on how the promise of
  \<^verbatim>\<open>client.start()\<close> settles: when the client is constructed, \<^verbatim>\<open>client.start()\<close>
  is called (it is in the trace with its result), its promise is dropped and the promise
  of \<^verbatim>\<open>activate\<close> is fulfilled. The promise of \<^verbatim>\<open>activate\<close> rejects only when
  constructing the client throws, with what was thrown; the state is then as before: no
  client is assigned and \<^verbatim>\<open>start()\<close> is not called.
\<close>

theorem activate_result:
  "fst (activate ctx h t r s) = (case t of None \<Rightarrow> Fulfilled | Some e \<Rightarrow> Rejected e) \<and>
   fst (activate ctx h t r s) = fst (activate ctx h t r' s) \<and>
   calls (snd (activate ctx h None r s)) = calls s @ [Start (length (heap s)) r] \<and>
   snd (activate ctx h (Some e) r s) = s"
  by (simp add: activate_def Let_def split: option.splits)

section \<open>Stopping twice\<close>

text \<open>
  C7, as stated, fails: after an \<^verbatim>\<open>activate\<close> whose launch failed, the library
  rejects \<^verbatim>\<open>client.stop()\<close> each time it is called, and the second \<^verbatim>\<open>deactivate\<close>
  hands that rejection back.
\<close>

theorem second_deactivate_rejects_counterexample:
  "fst (deactivate (Rejected (Error ''Client is not running''))
          (snd (deactivate (Rejected (Error ''Client is not running''))
                  (snd (activate () plain_host None (Rejected LaunchError) init_state)))))
     = Some (Rejected (Error ''Client is not running''))"
  by (simp add: result_of_deactivate client_after_deactivate client_after_activate)

text \<open>
  C7, amended. \<^verbatim>\<open>deactivate\<close> never changes the module variable or the clients
  constructed, so in these the state after two calls is the state after one. With no
  client both calls return \<^verbatim>\<open>undefined\<close> and call nothing; with a client the second
  call calls \<^verbatim>\<open>client.stop()\<close> once more on the same client and returns the promise of
  that call, whatever its result.
\<close>

theorem deactivate_twice:
  "client (snd (deactivate r2 (snd (deactivate r1 s)))) = client (snd (deactivate r1 s)) \<and>
   heap (snd (deactivate r2 (snd (deactivate r1 s)))) = heap (snd (deactivate r1 s)) \<and>
   fst (deactivate r2 (snd (deactivate r1 s))) = map_option (\<lambda>c. r2) (client s) \<and>
   calls (snd (deactivate r2 (snd (deactivate r1 s)))) =
     calls (snd (deactivate r1 s)) @ (case client s of None \<Rightarrow> [] | Some c \<Rightarrow> [Stop c r2])"
  by (simp add: client_after_deactivate heap_after_deactivate result_of_deactivate
      calls_after_deactivate)

section \<open>One reference, many clients\<close>














section \<open>Run and debug\<close>

text \<open>
  C9. The server options of the client constructed by \<^verbatim>\<open>activate\<close> have the same
  executable under \<^verbatim>\<open>run\<close> and under \<^verbatim>\<open>debug\<close>: the same command and the same
  environment.
\<close>

theorem debug_is_run:
  "map_option lc_serverOptions (current_client (snd (activate ctx h None r s)))
     = Some (serverOptions h) \<and>
   debug (serverOptions h) = run (serverOptions h) \<and>
   command (debug (serverOptions h)) = command (run (serverOptions h)) \<and>
   options_env (debug (serverOptions h)) = options_env (run (serverOptions h))"
  by (simp add: current_after_activate serverOptions_def)

section \<open>Watched files\<close>

text \<open>
  C10. The client constructed by \<^verbatim>\<open>activate\<close> is configured with one watcher, whose
  glob pattern is \<^verbatim>\<open>**/.clientrc\<close>: a filesystem event whose path does not match that
  pattern is forwarded by no watcher, and one whose path matches is forwarded once.
\<close>

theorem watch_only_clientrc:
  "map_option lc_clientOptions (current_client (snd (activate ctx h None r s)))
     = Some clientOptions \<and>
   map globPattern (synchronize_fileEvents clientOptions) = [''**/.clientrc''] \<and>
   (\<not> glob ''**/.clientrc'' path \<longrightarrow> watch_notifications glob clientOptions path = []) \<and>
   (glob ''**/.clientrc'' path \<longrightarrow> watch_notifications glob clientOptions path = [path])"
  by (simp add: current_after_activate clientOptions_def watch_notifications_def
      createFileSystemWatcher_def)

theorem watch_only_clientrc_witness:
  "\<not> basename_glob ''**/.clientrc'' ''/work/cavity/system/controlDict'' \<and>
   watch_notifications basename_glob clientOptions ''/work/cavity/system/controlDict'' = [] \<and>
   basename_glob ''**/.clientrc'' ''/work/cavity/.clientrc'' \<and>
   watch_notifications basename_glob clientOptions ''/work/cavity/.clientrc''
     = [''/work/cavity/.clientrc'']"
proof -
  have n: "\<not> basename_glob ''**/.clientrc'' ''/work/cavity/system/controlDict''"
    by (simp add: basename_glob_def last_segment_def)
  have y: "basename_glob ''**/.clientrc'' ''/work/cavity/.clientrc''"
    by (simp add: basename_glob_def last_segment_def)
  note t = watch_only_clientrc [of "()" plain_host Fulfilled init_state basename_glob]
  have "watch_notifications basename_glob clientOptions ''/work/cavity/system/controlDict'' = []"
    using t [THEN conjunct2, THEN conjunct2, THEN conjunct1, rule_format, OF n] .
  moreover have "watch_notifications basename_glob clientOptions ''/work/cavity/.clientrc''
      = [''/work/cavity/.clientrc'']"
    using t [THEN conjunct2, THEN conjunct2, THEN conjunct2, rule_format, OF y] .
  ultimately show ?thesis
    using n y by simp
qed

end
